theory Spec2Isabelle
  imports Complex_Main "HOL-Library.Word"
begin

section \<open>The network orchestrator of \<^verbatim>\<open>include/Network.hpp\<close>\<close>

text \<open>
  A shallow embedding of the class template \<^verbatim>\<open>NN::Network\<close>: its data members as a
  record, its member functions as state-passing functions on that record. A member
  function that can leave by an exception returns a sum: \<open>Inl (e, n)\<close> is the exception
  \<open>e\<close> together with the object \<open>n\<close> as it stands when the exception leaves the function,
  \<open>Inr\<close> is the normal return.

  Embedded are the three constructors, \<^verbatim>\<open>setInputs\<close>, \<^verbatim>\<open>setTarget\<close>, \<^verbatim>\<open>setLayers\<close>,
  \<^verbatim>\<open>appendLayers\<close>, \<^verbatim>\<open>insertLayer\<close>, \<^verbatim>\<open>getWeights\<close>, \<^verbatim>\<open>setWeights\<close>,
  \<^verbatim>\<open>setLossFunc(std::string)\<close>, \<^verbatim>\<open>predict\<close>, \<^verbatim>\<open>predictVal\<close>, \<^verbatim>\<open>backwardPass\<close>,
  \<^verbatim>\<open>updateWeights()\<close> and \<^verbatim>\<open>train\<close>; the plain getters are the fields of the record.

  Conventions of the embedding:
  \<^item> \<^verbatim>\<open>double\<close> is \<open>real\<close>: rounding, infinities and NaN are not modelled;
  \<^item> \<^verbatim>\<open>int_t\<close> (declared in \<^verbatim>\<open>Layer.hpp\<close>) is taken as a signed integer, \<open>int\<close>;
    \<^verbatim>\<open>size_t\<close> is a 64 bit word where it counts training iterations and \<open>nat\<close> where
    it is the size of a container;
  \<^item> \<^verbatim>\<open>Vec\<close> is a list of coefficients, \<^verbatim>\<open>Mat\<close> a list of rows;
  \<^item> \<^verbatim>\<open>layers[i]\<close> and \<^verbatim>\<open>layer_input_shapes[i]\<close> are written on \<^verbatim>\<open>std::list\<close> in the
    source; they are read as the access to the element at position \<open>i\<close>;
  \<^item> an access the C++ standard leaves undefined (\<^verbatim>\<open>back()\<close> or element 0 of an empty
    list) is reported as the error \<open>OutOfRange\<close>, the coefficient-wise difference of two
    vectors of different sizes as \<open>SizeMismatch\<close>.
\<close>

type_synonym int_t = int
type_synonym Vec = "real list"
type_synonym Mat = "real list list"
type_synonym shape = "int_t \<times> int_t"

definition rows :: "Mat \<Rightarrow> int" where
  "rows m = int (length m)"

definition cols :: "Mat \<Rightarrow> int" where
  "cols m = (case m of [] \<Rightarrow> 0 | r # _ \<Rightarrow> int (length r))"

definition vsize :: "Vec \<Rightarrow> int" where
  "vsize v = int (length v)"

text \<open>\<^verbatim>\<open>pred - obs\<close> on vectors of one size.\<close>

definition vsub :: "Vec \<Rightarrow> Vec \<Rightarrow> Vec" where
  "vsub a b = map2 (\<lambda>x y. x - y) a b"

fun dot :: "Vec \<Rightarrow> Vec \<Rightarrow> real" where
  "dot (x # xs) (y # ys) = x * y + dot xs ys"
| "dot _ _ = 0"

text \<open>
  \<^verbatim>\<open>outputs = layerOut\<close> assigns a matrix to a vector: the coefficients of a one-column
  (or one-row) matrix, read in order.
\<close>

definition vec_of_mat :: "Mat \<Rightarrow> Vec" where
  "vec_of_mat m = concat m"

datatype error =
    Thrown string
  | BadFunctionCall
  | OutOfRange
  | SizeMismatch

subsection \<open>The layer collaborator\<close>

text \<open>
  Modelled from the spec: \<^verbatim>\<open>Layer.hpp\<close> is not among the sources. A layer is the record
  of the attributes that section 3 of the specification lists for it; its getters read
  them. Every member function of a layer that changes it is a parameter of the
  development (the record \<open>Layer_ops\<close>), so that what is proved about the network holds
  for any layer implementation.
\<close>

record Layer =
  l_input_shape :: shape
  l_num_outputs :: int_t
  l_weights :: Mat
  l_inputs :: Mat
  l_outputs :: Mat
  l_err :: Mat
  l_gradient :: Mat
  l_activation :: string

definition getInputShape :: "Layer \<Rightarrow> shape" where
  "getInputShape l = l_input_shape l"

definition getNumOutputs_l :: "Layer \<Rightarrow> int_t" where
  "getNumOutputs_l l = l_num_outputs l"

definition getWeights_l :: "Layer \<Rightarrow> Mat" where
  "getWeights_l l = l_weights l"

definition getOutputs_l :: "Layer \<Rightarrow> Mat" where
  "getOutputs_l l = l_outputs l"

definition getErr :: "Layer \<Rightarrow> Mat" where
  "getErr l = l_err l"

definition getGradient_l :: "Layer \<Rightarrow> Mat" where
  "getGradient_l l = l_gradient l"

record Layer_ops =
  Layer_new :: "shape \<Rightarrow> int_t \<Rightarrow> string \<Rightarrow> Layer"
  Layer_setInputs :: "Mat \<Rightarrow> Layer \<Rightarrow> Layer"
  Layer_setInputShape :: "shape \<Rightarrow> Layer \<Rightarrow> Layer"
  Layer_setWeights :: "Mat \<Rightarrow> Layer \<Rightarrow> Layer"
  Layer_forwardPass :: "Layer \<Rightarrow> Layer"
  Layer_backwardPass_Vec :: "Vec \<Rightarrow> Layer \<Rightarrow> Layer"
  Layer_backwardPass_err :: "Mat \<Rightarrow> Layer \<Rightarrow> Layer"
  Layer_updateWeights :: "Layer \<Rightarrow> Layer"

text \<open>
  Modelled from the spec: the overload \<^verbatim>\<open>Layer::backwardPass(const Layer&)\<close> that
  \<^verbatim>\<open>Network::backwardPass\<close> calls with the downstream layer. Section 4.1 says that every
  layer but the last receives the next layer's error term, so the overload reads
  \<^verbatim>\<open>getErr()\<close> of its argument and nothing else of it.
\<close>

definition Layer_backwardPass_Layer :: "Layer_ops \<Rightarrow> Layer \<Rightarrow> Layer \<Rightarrow> Layer" where
  "Layer_backwardPass_Layer ops next l = Layer_backwardPass_err ops (getErr next) l"

subsection \<open>The loss registries\<close>

text \<open>
  A \<^verbatim>\<open>std::function\<close> may be empty: \<open>None\<close> is the empty function, and calling it throws
  \<^verbatim>\<open>std::bad_function_call\<close>. The two registries are global \<^verbatim>\<open>std::unordered_map\<close>s;
  \<^verbatim>\<open>operator[]\<close> on a key that is absent inserts the key with a value-initialised (empty)
  function and returns it, so a lookup changes the registry.
\<close>

type_synonym loss_fn = "(Vec \<Rightarrow> Vec \<Rightarrow> real) option"
type_synonym loss_deriv_fn = "(Vec \<Rightarrow> Vec \<Rightarrow> Vec) option"

record registry =
  VECTOR_LOSS :: "string \<rightharpoonup> loss_fn"
  VECTOR_LOSS_DERIVATIVE :: "string \<rightharpoonup> loss_deriv_fn"

definition L2_loss :: "Vec \<Rightarrow> Vec \<Rightarrow> real" where
  "L2_loss pred obs = (let resid = vsub pred obs in 0.5 * dot resid resid)"

definition L2_loss_derivative :: "Vec \<Rightarrow> Vec \<Rightarrow> Vec" where
  "L2_loss_derivative pred obs = vsub pred obs"

definition registry0 :: registry where
  "registry0 = \<lparr> VECTOR_LOSS = [''L2'' \<mapsto> Some L2_loss],
                 VECTOR_LOSS_DERIVATIVE = [''L2'' \<mapsto> Some L2_loss_derivative] \<rparr>"

definition index_VECTOR_LOSS :: "registry \<Rightarrow> string \<Rightarrow> loss_fn \<times> registry" where
  "index_VECTOR_LOSS reg k =
     (case VECTOR_LOSS reg k of
        Some f \<Rightarrow> (f, reg)
      | None \<Rightarrow> (None, reg\<lparr>VECTOR_LOSS := (VECTOR_LOSS reg)(k \<mapsto> None)\<rparr>))"

definition index_VECTOR_LOSS_DERIVATIVE :: "registry \<Rightarrow> string \<Rightarrow> loss_deriv_fn \<times> registry" where
  "index_VECTOR_LOSS_DERIVATIVE reg k =
     (case VECTOR_LOSS_DERIVATIVE reg k of
        Some f \<Rightarrow> (f, reg)
      | None \<Rightarrow> (None, reg\<lparr>VECTOR_LOSS_DERIVATIVE := (VECTOR_LOSS_DERIVATIVE reg)(k \<mapsto> None)\<rparr>))"

subsection \<open>The network\<close>

text \<open>
  The data members of \<^verbatim>\<open>Network\<close>, in the order of the source. The last field,
  \<open>vector_loss\<close>, is the name that \<^verbatim>\<open>setLossFunc(std::string)\<close> assigns and
  \<^verbatim>\<open>getVectorLoss\<close> reads; the class declares no such member, and the forward pass calls
  \<open>vector_loss_func\<close>.
\<close>

record Network =
  input_shape :: shape
  inputs :: Mat
  num_outputs :: int_t
  outputs :: Vec
  target :: Vec
  layers :: "Layer list"
  layer_input_shapes :: "shape list"
  vector_loss_func :: loss_fn
  vector_loss_derivative :: loss_deriv_fn
  loss_deriv :: Vec
  scalar_loss :: real
  trainingLoss :: "real list"
  resid :: Vec
  gradient :: Mat
  vector_loss :: loss_fn

type_synonym 'a result = "(error \<times> Network) + 'a"

text \<open>
  No constructor gives \<open>inputs\<close>, \<open>outputs\<close>, \<open>target\<close>, \<open>loss_deriv\<close> and \<open>scalar_loss\<close> a
  value: the matrices are allocated and their coefficients, like the \<^verbatim>\<open>double\<close>, are
  indeterminate. The constructors of the model take what these members happen to hold as
  an argument.
\<close>

record uninit =
  u_inputs :: Mat
  u_outputs :: Vec
  u_target :: Vec
  u_loss_deriv :: Vec
  u_scalar_loss :: real

text \<open>\<^verbatim>\<open>Network(_input_shape, _num_outputs, activation, loss)\<close>\<close>

definition Network_single ::
  "Layer_ops \<Rightarrow> uninit \<Rightarrow> registry \<Rightarrow> shape \<Rightarrow> int_t \<Rightarrow> string \<Rightarrow> string \<Rightarrow> registry \<times> Network" where
  "Network_single ops u reg a_input_shape a_num_outputs activation loss =
     (let (f, reg1) = index_VECTOR_LOSS reg loss;
          (d, reg2) = index_VECTOR_LOSS_DERIVATIVE reg1 loss;
          finalLayer = Layer_new ops a_input_shape a_num_outputs activation
      in (reg2,
          \<lparr> input_shape = a_input_shape, inputs = u_inputs u,
            num_outputs = a_num_outputs, outputs = u_outputs u, target = u_target u,
            layers = [finalLayer], layer_input_shapes = [a_input_shape],
            vector_loss_func = f, vector_loss_derivative = d,
            loss_deriv = u_loss_deriv u, scalar_loss = u_scalar_loss u,
            trainingLoss = [], resid = [], gradient = [], vector_loss = None \<rparr>))"

text \<open>
  \<^verbatim>\<open>Network(std::initializer_list<Layer> _layers)\<close>: the shapes are collected from the
  layers, then element 0 and \<^verbatim>\<open>back()\<close> of the collected list are read.
\<close>

definition Network_list :: "uninit \<Rightarrow> Layer list \<Rightarrow> (error + Network)" where
  "Network_list u a_layers =
     (let shapes = map getInputShape a_layers
      in if shapes = [] then Inl OutOfRange
         else Inr
          \<lparr> input_shape = shapes ! 0, inputs = u_inputs u,
            num_outputs = snd (last shapes), outputs = u_outputs u, target = u_target u,
            layers = a_layers, layer_input_shapes = shapes,
            vector_loss_func = None, vector_loss_derivative = None,
            loss_deriv = u_loss_deriv u, scalar_loss = u_scalar_loss u,
            trainingLoss = [], resid = [], gradient = [], vector_loss = None \<rparr>)"

text \<open>\<^verbatim>\<open>Network(activation, loss, _layers)\<close>; the argument \<^verbatim>\<open>activation\<close> is not used.\<close>

definition Network_loss_list ::
  "uninit \<Rightarrow> registry \<Rightarrow> string \<Rightarrow> string \<Rightarrow> Layer list \<Rightarrow> registry \<times> (error + Network)" where
  "Network_loss_list u reg activation loss a_layers =
     (let (f, reg1) = index_VECTOR_LOSS reg loss;
          (d, reg2) = index_VECTOR_LOSS_DERIVATIVE reg1 loss;
          shapes = map getInputShape a_layers
      in (reg2,
          if shapes = [] then Inl OutOfRange
          else Inr
           \<lparr> input_shape = shapes ! 0, inputs = u_inputs u,
             num_outputs = snd (last shapes), outputs = u_outputs u, target = u_target u,
             layers = a_layers, layer_input_shapes = shapes,
             vector_loss_func = f, vector_loss_derivative = d,
             loss_deriv = u_loss_deriv u, scalar_loss = u_scalar_loss u,
             trainingLoss = [], resid = [], gradient = [], vector_loss = None \<rparr>))"

text \<open>Replacing the first and the last element of a list that has one.\<close>

definition upd_front :: "('a \<Rightarrow> 'a) \<Rightarrow> 'a list \<Rightarrow> 'a list" where
  "upd_front f xs = (case xs of [] \<Rightarrow> [] | x # r \<Rightarrow> f x # r)"

definition upd_back :: "('a \<Rightarrow> 'a) \<Rightarrow> 'a list \<Rightarrow> 'a list" where
  "upd_back f xs = (if xs = [] then [] else butlast xs @ [f (last xs)])"

definition setInputs :: "Layer_ops \<Rightarrow> Mat \<Rightarrow> bool \<Rightarrow> Network \<Rightarrow> Network result" where
  "setInputs ops a_inputs overrideInputShape n =
     (if \<not> overrideInputShape then
        (if rows a_inputs \<noteq> fst (input_shape n) then
           Inl (Thrown ''Error: new input matrix must have number of rows of input_shape.first'', n)
         else if cols a_inputs \<noteq> snd (input_shape n) then
           Inl (Thrown ''Error: new input matrix must have number of cols of input_shape.second'', n)
         else Inr (n\<lparr>inputs := a_inputs\<rparr>))
      else
        (let n1 = n\<lparr>inputs := a_inputs\<rparr>;
             n2 = n1\<lparr>input_shape := (rows (inputs n1), cols (inputs n1))\<rparr>
         in if layers n2 = [] then Inl (OutOfRange, n2)
            else
              let n3 = n2\<lparr>layers := upd_front (Layer_setInputs ops (inputs n2)) (layers n2)\<rparr>
              in if layer_input_shapes n3 = [] then Inl (OutOfRange, n3)
                 else Inr (n3\<lparr>layer_input_shapes :=
                                upd_front (\<lambda>_. input_shape n3) (layer_input_shapes n3)\<rparr>)))"

definition setTarget :: "Layer_ops \<Rightarrow> Vec \<Rightarrow> bool \<Rightarrow> Network \<Rightarrow> Network result" where
  "setTarget ops a_target overrideTargetSize n =
     (if vsize a_target \<noteq> num_outputs n then
        (if overrideTargetSize then
           (let n1 = n\<lparr>num_outputs := vsize (target n)\<rparr>
            in if layer_input_shapes n1 = [] then Inl (OutOfRange, n1)
               else
                 let n2 = n1\<lparr>layer_input_shapes :=
                               upd_back (\<lambda>s. (fst s, num_outputs n1)) (layer_input_shapes n1)\<rparr>
                 in if layers n2 = [] then Inl (OutOfRange, n2)
                    else
                      let n3 = n2\<lparr>layers :=
                                    upd_back (Layer_setInputShape ops (last (layer_input_shapes n2)))
                                      (layers n2)\<rparr>
                      in Inr (n3\<lparr>target := a_target\<rparr>))
         else Inl (Thrown ''Error: _target must have length equal to num_outputs'', n))
      else Inr (n\<lparr>target := a_target\<rparr>))"

definition setLayers :: "Layer list \<Rightarrow> Network \<Rightarrow> Network result" where
  "setLayers newLayers n =
     (let n1 = n\<lparr>layers := newLayers\<rparr>;
          new_layer_input_shapes = map getInputShape (layers n1)
      in if new_layer_input_shapes = [] then Inl (OutOfRange, n1)
         else Inr (n1\<lparr>input_shape := new_layer_input_shapes ! 0,
                      num_outputs := snd (last new_layer_input_shapes),
                      layer_input_shapes := new_layer_input_shapes\<rparr>))"

definition appendLayers :: "Layer list \<Rightarrow> Network \<Rightarrow> Network result" where
  "appendLayers newLayers n =
     (let n1 = n\<lparr>layer_input_shapes := layer_input_shapes n @ map getInputShape newLayers\<rparr>
      in if layer_input_shapes n1 = [] then Inl (OutOfRange, n1)
         else
           let n2 = n1\<lparr>num_outputs := snd (last (layer_input_shapes n1))\<rparr>
           in Inr (n2\<lparr>layers := layers n2 @ newLayers\<rparr>))"

text \<open>
  \<^verbatim>\<open>insertLayer(location, newLayer)\<close>: the iterator is the position \<open>location\<close> it points
  to, \<open>length (layers n)\<close> for \<^verbatim>\<open>layers.end()\<close>; \<^verbatim>\<open>layers.insert\<close> puts the new layer
  before that position.
\<close>

definition insertLayer :: "nat \<Rightarrow> Layer \<Rightarrow> Network \<Rightarrow> Network result" where
  "insertLayer location newLayer n =
     (if location = length (layers n) then appendLayers [newLayer] n
      else
        let n1 = n\<lparr>layers := take location (layers n) @ newLayer # drop location (layers n)\<rparr>;
            new_layer_input_shapes = map getInputShape (layers n1)
        in Inr (n1\<lparr>input_shape := new_layer_input_shapes ! 0,
                     num_outputs := snd (last new_layer_input_shapes),
                     layer_input_shapes := new_layer_input_shapes\<rparr>))"

definition getWeights :: "Network \<Rightarrow> Mat list" where
  "getWeights n = map getWeights_l (layers n)"

text \<open>
  \<^verbatim>\<open>for(int_t i=0; i < layers.size(); i++) layers[i].setWeights(weights[i]);\<close> It runs
  only when the two lists have one length, so both accesses are in range.
\<close>

function setWeights_loop :: "Layer_ops \<Rightarrow> Mat list \<Rightarrow> nat \<Rightarrow> Layer list \<Rightarrow> Layer list" where
  "setWeights_loop ops weights i ls =
     (if i < length ls
      then setWeights_loop ops weights (i + 1)
             (ls[i := Layer_setWeights ops (weights ! i) (ls ! i)])
      else ls)"
  by pat_completeness auto
termination
  by (relation "measure (\<lambda>(ops, weights, i, ls). length ls - i)") auto

declare setWeights_loop.simps [simp del]

definition setWeights :: "Layer_ops \<Rightarrow> Mat list \<Rightarrow> Network \<Rightarrow> Network result" where
  "setWeights ops weights n =
     (if length weights \<noteq> length (layers n) then
        Inl (Thrown ''Error: must provide exactly one weight matrix for each layer.'', n)
      else Inr (n\<lparr>layers := setWeights_loop ops weights 0 (layers n)\<rparr>))"

text \<open>\<^verbatim>\<open>setLossFunc(std::string loss)\<close>\<close>

definition setLossFunc :: "registry \<Rightarrow> string \<Rightarrow> Network \<Rightarrow> registry \<times> Network" where
  "setLossFunc reg loss n =
     (let (f, reg1) = index_VECTOR_LOSS reg loss;
          n1 = n\<lparr>vector_loss := f\<rparr>;
          (d, reg2) = index_VECTOR_LOSS_DERIVATIVE reg1 loss
      in (reg2, n1\<lparr>vector_loss_derivative := d\<rparr>))"

subsection \<open>Forward pass\<close>

text \<open>
  The loop over the layers of \<^verbatim>\<open>predict\<close> and \<^verbatim>\<open>predictVal\<close>: each layer gets the running
  matrix as its input, runs its forward pass, and its output is the running matrix of
  the next. The result is the updated layers and the last running matrix.
\<close>

fun forward_loop :: "Layer_ops \<Rightarrow> Mat \<Rightarrow> Layer list \<Rightarrow> Layer list \<times> Mat" where
  "forward_loop ops layerOut [] = ([], layerOut)"
| "forward_loop ops layerOut (l # ls) =
     (let l1 = Layer_setInputs ops layerOut l;
          l2 = Layer_forwardPass ops l1;
          (ls', out) = forward_loop ops (getOutputs_l l2) ls
      in (l2 # ls', out))"

definition predict :: "Layer_ops \<Rightarrow> Mat option \<Rightarrow> Vec option \<Rightarrow> Network \<Rightarrow> Network result" where
  "predict ops inputData a_target n =
     (case (case inputData of None \<Rightarrow> Inr n | Some m \<Rightarrow> setInputs ops m False n) of
        Inl e \<Rightarrow> Inl e
      | Inr n1 \<Rightarrow>
     (case (case a_target of None \<Rightarrow> Inr n1 | Some t \<Rightarrow> setTarget ops t False n1) of
        Inl e \<Rightarrow> Inl e
      | Inr n2 \<Rightarrow>
     (let (ls, layerOut) = forward_loop ops (inputs n2) (layers n2);
          n3 = n2\<lparr>layers := ls, outputs := vec_of_mat layerOut\<rparr>
      in if length (outputs n3) \<noteq> length (target n3) then Inl (SizeMismatch, n3)
         else
           let n4 = n3\<lparr>resid := vsub (outputs n3) (target n3)\<rparr>
           in (case vector_loss_func n4 of
                 None \<Rightarrow> Inl (BadFunctionCall, n4)
               | Some f \<Rightarrow>
                   let n5 = n4\<lparr>scalar_loss := f (outputs n4) (target n4)\<rparr>
                   in (case vector_loss_derivative n5 of
                         None \<Rightarrow> Inl (BadFunctionCall, n5)
                       | Some d \<Rightarrow> Inr (n5\<lparr>loss_deriv := d (outputs n5) (target n5)\<rparr>))))))"

definition predictVal ::
  "Layer_ops \<Rightarrow> Mat option \<Rightarrow> Vec option \<Rightarrow> Network \<Rightarrow> (Vec \<times> Network) result" where
  "predictVal ops inputData a_target n =
     (case (case inputData of None \<Rightarrow> Inr n | Some m \<Rightarrow> setInputs ops m False n) of
        Inl e \<Rightarrow> Inl e
      | Inr n1 \<Rightarrow>
     (case (case a_target of None \<Rightarrow> Inr n1 | Some t \<Rightarrow> setTarget ops t False n1) of
        Inl e \<Rightarrow> Inl e
      | Inr n2 \<Rightarrow>
     (let (ls, layerOut) = forward_loop ops (inputs n2) (layers n2);
          n3 = n2\<lparr>layers := ls, outputs := vec_of_mat layerOut\<rparr>
      in if length (outputs n3) \<noteq> length (target n3) then Inl (SizeMismatch, n3)
         else
           let n4 = n3\<lparr>resid := vsub (outputs n3) (target n3)\<rparr>
           in (case vector_loss_func n4 of
                 None \<Rightarrow> Inl (BadFunctionCall, n4)
               | Some f \<Rightarrow>
                   let n5 = n4\<lparr>scalar_loss := f (outputs n4) (target n4)\<rparr>
                   in (case vector_loss_derivative n5 of
                         None \<Rightarrow> Inl (BadFunctionCall, n5)
                       | Some d \<Rightarrow>
                           let n6 = n5\<lparr>loss_deriv := d (outputs n5) (target n5)\<rparr>
                           in Inr (outputs n6, n6))))))"

subsection \<open>Backward pass\<close>

text \<open>
  \<^verbatim>\<open>for(int_t i = layers.size()-2; i >= 0; i--) layers[i].backwardPass(layers[i+1]);\<close>
  The index is signed, so the loop ends below 0; it starts at the size less 2, so
  position \<open>i + 1\<close> exists whenever the body runs.
\<close>

function backward_loop :: "Layer_ops \<Rightarrow> int \<Rightarrow> Layer list \<Rightarrow> Layer list" where
  "backward_loop ops i ls =
     (if i \<ge> 0
      then backward_loop ops (i - 1)
             (ls[nat i := Layer_backwardPass_Layer ops (ls ! nat (i + 1)) (ls ! nat i)])
      else ls)"
  by pat_completeness auto
termination
  by (relation "measure (\<lambda>(ops, i, ls). nat (i + 1))") auto

declare backward_loop.simps [simp del]

definition backwardPass :: "Layer_ops \<Rightarrow> Network \<Rightarrow> Network result" where
  "backwardPass ops n =
     (if layers n = [] then Inl (OutOfRange, n)
      else
        let n1 = n\<lparr>layers := upd_back (Layer_backwardPass_Vec ops (loss_deriv n)) (layers n)\<rparr>;
            n2 = n1\<lparr>layers := backward_loop ops (int (length (layers n1)) - 2) (layers n1)\<rparr>
        in Inr (n2\<lparr>gradient := getGradient_l (layers n2 ! 0)\<rparr>))"

text \<open>
  The walk as section 4.3 of the specification words it, for comparison with the loop of
  the source: the last layer receives the loss gradient, every other layer the error
  term of the layer after it, as that layer's own backward call left it.
\<close>

fun backward_chain :: "Layer_ops \<Rightarrow> Vec \<Rightarrow> Layer list \<Rightarrow> Layer list" where
  "backward_chain ops g [] = []"
| "backward_chain ops g [l] = [Layer_backwardPass_Vec ops g l]"
| "backward_chain ops g (l # l' # ls) =
     (let rest = backward_chain ops g (l' # ls)
      in Layer_backwardPass_err ops (getErr (hd rest)) l # rest)"

subsection \<open>Weight update and training loop\<close>

definition updateWeights :: "Layer_ops \<Rightarrow> Network \<Rightarrow> Network" where
  "updateWeights ops n = n\<lparr>layers := map (Layer_updateWeights ops) (layers n)\<rparr>"

text \<open>
  The \<^verbatim>\<open>while\<close> loop of \<^verbatim>\<open>train\<close>. The counter is a \<^verbatim>\<open>size_t\<close> and wraps around, so
  with the largest maximum the loop need not end: the function is partial, and \<open>None\<close>
  is the run that never returns. A normal return gives the counter and the network.
\<close>

partial_function (option) train_loop ::
  "Layer_ops \<Rightarrow> real \<Rightarrow> 64 word \<Rightarrow> 64 word \<Rightarrow> Network \<Rightarrow> ((64 word \<times> Network) result) option" where
  "train_loop ops stopTol maxIter num_iter n =
     (if num_iter \<le> maxIter \<and> scalar_loss n > stopTol then
        (case predict ops None None n of
           Inl e \<Rightarrow> Some (Inl e)
         | Inr n1 \<Rightarrow>
             (case backwardPass ops n1 of
                Inl e \<Rightarrow> Some (Inl e)
              | Inr n2 \<Rightarrow>
                  let n3 = n2\<lparr>trainingLoss := trainingLoss n2 @ [scalar_loss n2]\<rparr>;
                      n4 = updateWeights ops n3
                  in train_loop ops stopTol maxIter (num_iter + 1) n4))
      else Some (Inr (num_iter, n)))"

declare train_loop.simps [code]

text \<open>
  \<^verbatim>\<open>train(stopTol, maxIter, inputData, _target, noprint)\<close>. What it writes to
  \<^verbatim>\<open>std::cout\<close> is the second component of the normal return: \<open>Some x\<close> when the
  warning was printed, with the scalar loss \<open>x\<close> it shows, \<open>None\<close> when nothing was
  printed.
\<close>

definition train ::
  "Layer_ops \<Rightarrow> real \<Rightarrow> 64 word \<Rightarrow> Mat option \<Rightarrow> Vec option \<Rightarrow> bool \<Rightarrow> Network
     \<Rightarrow> ((Network \<times> real option) result) option" where
  "train ops stopTol maxIter inputData a_target noprint n =
     (case predict ops inputData a_target n of
        Inl e \<Rightarrow> Some (Inl e)
      | Inr n1 \<Rightarrow>
          (case backwardPass ops n1 of
             Inl e \<Rightarrow> Some (Inl e)
           | Inr n2 \<Rightarrow>
               let n3 = n2\<lparr>trainingLoss := trainingLoss n2 @ [scalar_loss n2]\<rparr>;
                   num_iter = 1;
                   n4 = updateWeights ops n3
               in (case train_loop ops stopTol maxIter num_iter n4 of
                     None \<Rightarrow> None
                   | Some (Inl e) \<Rightarrow> Some (Inl e)
                   | Some (Inr (num_iter', n5)) \<Rightarrow>
                       Some (Inr (n5, if num_iter' = maxIter \<and> \<not> noprint
                                      then Some (scalar_loss n5) else None)))))"

subsection \<open>A dense layer for the scenarios of section 8\<close>

text \<open>
  Modelled from the spec: a layer implementation to run the network on, since
  \<^verbatim>\<open>Layer.hpp\<close> is not among the sources. It is the linear layer of the scenarios of
  section 8: identity activation, every weight initialised to 1, output \<open>W * input\<close>,
  parameter gradient \<open>delta * input\<^sup>T\<close>, error term \<open>W\<^sup>T * delta\<close>, and the fixed-step
  update \<open>W - rate * gradient\<close>. Only closed examples use it.
\<close>

definition mat_transpose :: "Mat \<Rightarrow> Mat" where
  "mat_transpose A = map (\<lambda>j. map (\<lambda>r. r ! j) A) [0..<nat (cols A)]"

definition mat_mul :: "Mat \<Rightarrow> Mat \<Rightarrow> Mat" where
  "mat_mul A B = map (\<lambda>r. map (\<lambda>c. dot r c) (mat_transpose B)) A"

definition mat_step :: "real \<Rightarrow> Mat \<Rightarrow> Mat \<Rightarrow> Mat" where
  "mat_step rate W G = map2 (\<lambda>w g. map2 (\<lambda>a b. a - rate * b) w g) W G"

definition dense_ops :: "real \<Rightarrow> Layer_ops" where
  "dense_ops rate =
     \<lparr> Layer_new = (\<lambda>s k act.
         \<lparr> l_input_shape = s, l_num_outputs = k,
           l_weights = replicate (nat k) (replicate (nat (fst s)) 1),
           l_inputs = [], l_outputs = [], l_err = [], l_gradient = [],
           l_activation = act \<rparr>),
       Layer_setInputs = (\<lambda>m l. l\<lparr>l_inputs := m\<rparr>),
       Layer_setInputShape = (\<lambda>s l. l\<lparr>l_input_shape := s\<rparr>),
       Layer_setWeights = (\<lambda>w l. l\<lparr>l_weights := w\<rparr>),
       Layer_forwardPass = (\<lambda>l. l\<lparr>l_outputs := mat_mul (l_weights l) (l_inputs l)\<rparr>),
       Layer_backwardPass_Vec = (\<lambda>g l.
         let delta = map (\<lambda>x. [x]) g
         in l\<lparr>l_err := mat_mul (mat_transpose (l_weights l)) delta,
              l_gradient := mat_mul delta (mat_transpose (l_inputs l))\<rparr>),
       Layer_backwardPass_err = (\<lambda>delta l.
         l\<lparr>l_err := mat_mul (mat_transpose (l_weights l)) delta,
           l_gradient := mat_mul delta (mat_transpose (l_inputs l))\<rparr>),
       Layer_updateWeights = (\<lambda>l. l\<lparr>l_weights := mat_step rate (l_weights l) (l_gradient l)\<rparr>) \<rparr>"

text \<open>Members that no constructor sets, holding zeros, for a network of one output.\<close>

definition zeros1 :: uninit where
  "zeros1 = \<lparr> u_inputs = [[0]], u_outputs = [0], u_target = [0], u_loss_deriv = [0],
              u_scalar_loss = 0 \<rparr>"

text \<open>
  The single-layer network of section 8: input shape 1 by 1, one output, loss \<open>L2\<close>,
  step 1/10.
\<close>

definition scenario_net :: Network where
  "scenario_net = snd (Network_single (dense_ops (1/10)) zeros1 registry0 (1, 1) 1 ''identity'' ''L2'')"

text \<open>A network of two dense layers with the loss \<open>L2\<close>, built by the list constructor.\<close>

definition two_layer_net :: Network where
  "two_layer_net =
     projr (snd (Network_loss_list zeros1 registry0 ''identity'' ''L2''
       [Layer_new (dense_ops (1/10)) (1, 1) 1 ''identity'',
        Layer_new (dense_ops (1/10)) (1, 1) 1 ''identity'']))"

text \<open>That network after a forward pass on the input 3 with the target 6.\<close>

definition two_layer_fwd :: Network where
  "two_layer_fwd = projr (predict (dense_ops (1/10)) (Some [[3]]) (Some [6]) two_layer_net)"

text \<open>One step of the walk: a layer consumes the error term at the head of what is done.\<close>

abbreviation (input) chain_step :: "Layer_ops \<Rightarrow> Layer \<Rightarrow> Layer list \<Rightarrow> Layer list" where
  "chain_step ops l acc \<equiv> Layer_backwardPass_err ops (getErr (hd acc)) l # acc"

section \<open>Properties\<close>

subsection \<open>Evaluating the scenarios\<close>

lemmas scenario_simps = scenario_net_def Network_single_def dense_ops_def zeros1_def registry0_def
  index_VECTOR_LOSS_def index_VECTOR_LOSS_DERIVATIVE_def

subsection \<open>The backward loop is the walk from the last layer to the first\<close>

lemma backward_loop_prefix:
  "rest \<noteq> [] \<Longrightarrow>
   backward_loop ops (int (length pre) - 1) (pre @ rest) = foldr (chain_step ops) pre rest"
proof (induction pre arbitrary: rest rule: rev_induct)
  case Nil
  show ?case by (subst backward_loop.simps) simp
next
  case (snoc l pre)
  have nth1: "(pre @ l # rest) ! Suc (length pre) = hd rest"
    using snoc.prems by (cases rest) (simp_all add: nth_append)
  have step: "backward_loop ops (int (length (pre @ [l])) - 1) ((pre @ [l]) @ rest)
      = backward_loop ops (int (length pre) - 1) (pre @ chain_step ops l rest)"
    by (subst backward_loop.simps)
       (simp add: nth1 Layer_backwardPass_Layer_def nat_add_distrib list_update_append)
  show ?case
    unfolding step using snoc.IH [of "chain_step ops l rest"] by simp
qed

lemma backward_chain_snoc:
  "backward_chain ops g (pre @ [l]) = foldr (chain_step ops) pre [Layer_backwardPass_Vec ops g l]"
proof (induction pre)
  case Nil
  show ?case by simp
next
  case (Cons x pre)
  then show ?case by (cases pre) (simp_all add: Let_def)
qed

lemma backward_loop_chain:
  assumes "ls \<noteq> []"
  shows "backward_loop ops (int (length ls) - 2) (upd_back (Layer_backwardPass_Vec ops g) ls)
         = backward_chain ops g ls"
proof -
  have len: "int (length ls) - 2 = int (length (butlast ls)) - 1"
    using assms by (cases ls) simp_all
  have upd: "upd_back (Layer_backwardPass_Vec ops g) ls
             = butlast ls @ [Layer_backwardPass_Vec ops g (last ls)]"
    using assms by (simp add: upd_back_def)
  have "backward_loop ops (int (length ls) - 2) (upd_back (Layer_backwardPass_Vec ops g) ls)
        = foldr (chain_step ops) (butlast ls) [Layer_backwardPass_Vec ops g (last ls)]"
    unfolding len upd by (rule backward_loop_prefix) simp
  also have "\<dots> = backward_chain ops g (butlast ls @ [last ls])"
    by (simp add: backward_chain_snoc)
  finally show ?thesis using assms by simp
qed

lemma length_backward_chain: "length (backward_chain ops g ls) = length ls"
  by (induction ops g ls rule: backward_chain.induct) (simp_all add: Let_def)

lemma last_backward_chain:
  "ls \<noteq> [] \<Longrightarrow> last (backward_chain ops g ls) = Layer_backwardPass_Vec ops g (last ls)"
proof (induction ops g ls rule: backward_chain.induct)
  case (3 ops g l l' ls)
  have "backward_chain ops g (l' # ls) \<noteq> []"
    using length_backward_chain [of ops g "l' # ls"] by (metis length_0_conv list.distinct(1))
  with 3 show ?case by (simp add: Let_def)
qed simp_all

lemma nth_backward_chain:
  "Suc i < length ls \<Longrightarrow>
   backward_chain ops g ls ! i
     = Layer_backwardPass_err ops (getErr (backward_chain ops g ls ! Suc i)) (ls ! i)"
proof (induction ops g ls arbitrary: i rule: backward_chain.induct)
  case (3 ops g l l' ls)
  have ne: "backward_chain ops g (l' # ls) \<noteq> []"
    using length_backward_chain [of ops g "l' # ls"] by (metis length_0_conv list.distinct(1))
  show ?case
  proof (cases i)
    case 0
    then show ?thesis using ne by (simp add: Let_def hd_conv_nth)
  next
    case (Suc j)
    then show ?thesis using 3 by (simp add: Let_def)
  qed
qed simp_all

lemma backwardPass_eq:
  assumes "layers n \<noteq> []"
  shows "backwardPass ops n =
     Inr (n\<lparr>layers := backward_chain ops (loss_deriv n) (layers n),
            gradient := getGradient_l (backward_chain ops (loss_deriv n) (layers n) ! 0)\<rparr>)"
proof -
  have len: "length (upd_back (Layer_backwardPass_Vec ops (loss_deriv n)) (layers n)) = length (layers n)"
    using assms by (simp add: upd_back_def)
  show ?thesis
    using assms by (simp add: backwardPass_def Let_def len backward_loop_chain)
qed

text \<open>What a forward pass that returns leaves in \<open>loss_deriv\<close>.\<close>

lemma predict_fills_loss_deriv:
  "predict ops i t n = Inr n' \<Longrightarrow>
   \<exists>d. vector_loss_derivative n' = Some d \<and> loss_deriv n' = d (outputs n') (target n')"
  by (auto simp: predict_def setInputs_def setTarget_def Let_def
       split: option.splits sum.splits prod.splits if_splits)

text \<open>
  C1. On every network with at least one layer (in particular after a forward pass has
  filled \<open>loss_deriv\<close>), \<^verbatim>\<open>backwardPass\<close> returns normally and changes nothing but the
  layers and the exposed gradient. The last layer is the result of its backward call on
  the stored loss-gradient vector \<open>loss_deriv\<close>; every other layer, at position \<open>i\<close>, is
  the result of its backward call on the layer at position \<open>i + 1\<close> as that layer's own
  backward call left it, which consumes the error term of that layer; and the exposed
  gradient is the parameter gradient of the first layer after the walk.
\<close>

theorem backwardPass_walk:
  assumes "layers n \<noteq> []"
  shows "\<exists>n'. backwardPass ops n = Inr n'
     \<and> n' = n\<lparr>layers := layers n', gradient := gradient n'\<rparr>
     \<and> length (layers n') = length (layers n)
     \<and> last (layers n') = Layer_backwardPass_Vec ops (loss_deriv n) (last (layers n))
     \<and> (\<forall>i. Suc i < length (layers n) \<longrightarrow>
            layers n' ! i = Layer_backwardPass_Layer ops (layers n' ! Suc i) (layers n ! i)
          \<and> layers n' ! i = Layer_backwardPass_err ops (getErr (layers n' ! Suc i)) (layers n ! i))
     \<and> gradient n' = getGradient_l (layers n' ! 0)"
  using assms
  by (simp add: backwardPass_eq length_backward_chain last_backward_chain
        Layer_backwardPass_Layer_def nth_backward_chain [symmetric])

theorem backwardPass_walk_witness:
  "layers two_layer_fwd \<noteq> [] \<and> loss_deriv two_layer_fwd = [- 3]
   \<and> (\<exists>n'. backwardPass (dense_ops (1/10)) two_layer_fwd = Inr n'
         \<and> last (layers n') = Layer_backwardPass_Vec (dense_ops (1/10)) [- 3] (last (layers two_layer_fwd))
         \<and> layers n' ! 0 = Layer_backwardPass_err (dense_ops (1/10)) (getErr (layers n' ! 1)) (layers two_layer_fwd ! 0)
         \<and> gradient n' = getGradient_l (layers n' ! 0))"
proof -
  have fwd: "layers two_layer_fwd \<noteq> [] \<and> loss_deriv two_layer_fwd = [- 3]
      \<and> Suc 0 < length (layers two_layer_fwd)"
    by (simp add: two_layer_fwd_def two_layer_net_def Network_loss_list_def scenario_simps
          getInputShape_def predict_def setInputs_def setTarget_def rows_def cols_def vsize_def
          vsub_def vec_of_mat_def mat_mul_def mat_transpose_def getOutputs_l_def
          L2_loss_def L2_loss_derivative_def Let_def)
  then have ne: "layers two_layer_fwd \<noteq> []" by simp
  from backwardPass_walk [OF ne, of "dense_ops (1/10)"] fwd show ?thesis
    by auto
qed

text \<open>
  C3, the claim as stated fails: on the single-layer network as its constructor leaves
  it, with no forward pass performed, \<^verbatim>\<open>backwardPass\<close> raises nothing and sets a
  gradient.
\<close>

theorem backwardPass_fresh_network_counterexample:
  "\<not> isl (backwardPass (dense_ops (1/10)) scenario_net)
   \<and> map_sum fst gradient (backwardPass (dense_ops (1/10)) scenario_net) = Inr [[]]"
  by (simp add: scenario_simps backwardPass_def upd_back_def Let_def backward_loop.simps
        getGradient_l_def mat_mul_def mat_transpose_def cols_def)

text \<open>
  C3, as the code has it. \<^verbatim>\<open>backwardPass\<close> makes no check that a forward pass came
  before it: on every network with at least one layer it returns normally, and the
  layers it leaves are the walk run on whatever \<open>loss_deriv\<close> holds at the call.
\<close>

theorem backwardPass_unchecked:
  assumes "layers n \<noteq> []"
  shows "\<exists>n'. backwardPass ops n = Inr n'
           \<and> layers n' = backward_chain ops (loss_deriv n) (layers n)"
  using assms by (simp add: backwardPass_eq)

theorem backwardPass_unchecked_witness:
  "layers scenario_net \<noteq> []
   \<and> (\<exists>n'. backwardPass (dense_ops (1/10)) scenario_net = Inr n'
         \<and> layers n' = backward_chain (dense_ops (1/10)) [0] (layers scenario_net))"
proof -
  have ne: "layers scenario_net \<noteq> []" by (simp add: scenario_simps)
  have ld: "loss_deriv scenario_net = [0]" by (simp add: scenario_simps)
  from backwardPass_unchecked [OF ne, of "dense_ops (1/10)"] ne ld show ?thesis by simp
qed

subsection \<open>Weights\<close>

text \<open>
  C5. A weight list whose length is not the number of layers makes \<^verbatim>\<open>setWeights\<close> throw
  its message before it touches a layer: the network at the throw has the layers it had,
  and \<^verbatim>\<open>getWeights\<close> returns the same list before and after the failed call.
\<close>

theorem setWeights_arity:
  assumes "length weights \<noteq> length (layers n)"
  shows "\<exists>n'. setWeights ops weights n =
            Inl (Thrown ''Error: must provide exactly one weight matrix for each layer.'', n')
          \<and> layers n' = layers n \<and> getWeights n' = getWeights n"
  using assms by (simp add: setWeights_def)

theorem setWeights_arity_witness:
  "length ([] :: Mat list) \<noteq> length (layers scenario_net)
   \<and> (\<exists>n'. setWeights (dense_ops (1/10)) [] scenario_net =
            Inl (Thrown ''Error: must provide exactly one weight matrix for each layer.'', n')
          \<and> getWeights n' = [[[1]]])"
proof -
  have ne: "length ([] :: Mat list) \<noteq> length (layers scenario_net)" by (simp add: scenario_simps)
  have gw: "getWeights scenario_net = [[[1]]]" by (simp add: scenario_simps getWeights_def getWeights_l_def)
  from setWeights_arity [OF ne, of "dense_ops (1/10)"] ne gw show ?thesis by auto
qed

subsection \<open>Forward pass: the two variants\<close>

text \<open>
  C8. \<^verbatim>\<open>predict\<close> and \<^verbatim>\<open>predictVal\<close> update the network in the same way for every
  state and every choice of the optional arguments: they throw the same exception with
  the same state, or return the same state; \<^verbatim>\<open>predictVal\<close> returns in addition the
  output vector of that state.
\<close>

theorem predictVal_refines_predict:
  "predictVal ops inputData a_target n =
     (case predict ops inputData a_target n of
        Inl e \<Rightarrow> Inl e
      | Inr n' \<Rightarrow> Inr (outputs n', n'))"
  by (simp add: predict_def predictVal_def Let_def
           split: sum.splits option.splits prod.splits)

lemma predict_input_shape:
  "(predict ops i t n = Inr n' \<or> predict ops i t n = Inl (e, n')) \<Longrightarrow> input_shape n' = input_shape n"
  by (auto simp: predict_def setInputs_def setTarget_def Let_def
       split: option.splits sum.splits prod.splits if_splits)

lemma predictVal_input_shape:
  "(predictVal ops i t n = Inr (v, n') \<or> predictVal ops i t n = Inl (e, n')) \<Longrightarrow> input_shape n' = input_shape n"
  by (auto simp: predictVal_def setInputs_def setTarget_def Let_def
       split: option.splits sum.splits prod.splits if_splits)

text \<open>
  C10. An input matrix whose number of rows or of columns is not that of the declared
  input shape, given to \<^verbatim>\<open>predict\<close> or \<^verbatim>\<open>predictVal\<close>, makes the call throw the message
  of \<^verbatim>\<open>setInputs\<close> and leaves the network as it was. Both functions call \<^verbatim>\<open>setInputs\<close>
  without the override flag, so whatever they are given and however they end, the
  input shape of the network is the one it had.
\<close>

theorem predict_shape_mismatch:
  assumes "rows m \<noteq> fst (input_shape n) \<or> cols m \<noteq> snd (input_shape n)"
  shows "predict ops (Some m) t n =
           Inl (Thrown (if rows m \<noteq> fst (input_shape n)
                        then ''Error: new input matrix must have number of rows of input_shape.first''
                        else ''Error: new input matrix must have number of cols of input_shape.second''), n)
       \<and> predictVal ops (Some m) t n =
           Inl (Thrown (if rows m \<noteq> fst (input_shape n)
                        then ''Error: new input matrix must have number of rows of input_shape.first''
                        else ''Error: new input matrix must have number of cols of input_shape.second''), n)
       \<and> (\<forall>i t' e v n'.
             (predict ops i t' n = Inr n' \<or> predict ops i t' n = Inl (e, n')
              \<or> predictVal ops i t' n = Inr (v, n') \<or> predictVal ops i t' n = Inl (e, n'))
             \<longrightarrow> input_shape n' = input_shape n)"
proof -
  have a: "predict ops (Some m) t n =
           Inl (Thrown (if rows m \<noteq> fst (input_shape n)
                        then ''Error: new input matrix must have number of rows of input_shape.first''
                        else ''Error: new input matrix must have number of cols of input_shape.second''), n)"
    using assms by (simp add: predict_def setInputs_def)
  have b: "predictVal ops (Some m) t n =
           Inl (Thrown (if rows m \<noteq> fst (input_shape n)
                        then ''Error: new input matrix must have number of rows of input_shape.first''
                        else ''Error: new input matrix must have number of cols of input_shape.second''), n)"
    using assms by (simp add: predictVal_def setInputs_def)
  show ?thesis
    using a b predict_input_shape predictVal_input_shape by blast
qed

theorem predict_shape_mismatch_witness:
  "cols [[1, 2]] \<noteq> snd (input_shape scenario_net)
   \<and> predict (dense_ops (1/10)) (Some [[1, 2]]) None scenario_net =
        Inl (Thrown ''Error: new input matrix must have number of cols of input_shape.second'', scenario_net)
   \<and> predictVal (dense_ops (1/10)) (Some [[1, 2]]) None scenario_net =
        Inl (Thrown ''Error: new input matrix must have number of cols of input_shape.second'', scenario_net)
   \<and> \<not> isl (predict (dense_ops (1/10)) (Some [[3]]) (Some [6]) scenario_net)
   \<and> input_shape (projr (predict (dense_ops (1/10)) (Some [[3]]) (Some [6]) scenario_net))
       = input_shape scenario_net"
proof -
  have ok: "\<not> isl (predict (dense_ops (1/10)) (Some [[3]]) (Some [6]) scenario_net)"
    by (simp add: scenario_simps predict_def setInputs_def setTarget_def rows_def cols_def
          vsize_def vec_of_mat_def Let_def mat_mul_def mat_transpose_def getOutputs_l_def)
  then have ex: "predict (dense_ops (1/10)) (Some [[3]]) (Some [6]) scenario_net
             = Inr (projr (predict (dense_ops (1/10)) (Some [[3]]) (Some [6]) scenario_net))"
    by (cases "predict (dense_ops (1/10)) (Some [[3]]) (Some [6]) scenario_net") simp_all
  have c: "cols [[1, 2]] \<noteq> snd (input_shape scenario_net)"
    by (simp add: scenario_simps rows_def cols_def)
  then have h: "rows [[1, 2]] \<noteq> fst (input_shape scenario_net)
      \<or> cols [[1, 2]] \<noteq> snd (input_shape scenario_net)"
    by simp
  have r: "rows [[1, 2]] = fst (input_shape scenario_net)"
    by (simp add: scenario_simps rows_def cols_def)
  from predict_shape_mismatch [OF h, of "dense_ops (1/10)" None] c r ok ex show ?thesis
    by simp
qed

subsection \<open>Loss names that the registries do not hold\<close>

lemma predict_empty_loss:
  "vector_loss_func n = None \<Longrightarrow> isl (predict ops i t n)"
  by (auto simp: predict_def setInputs_def setTarget_def Let_def
       split: option.splits sum.splits prod.splits if_splits)

text \<open>
  C4, the claim as stated fails: constructing the single-layer network with the name
  \<open>L1\<close>, which the registries do not hold, raises nothing. The network comes back with
  an empty loss function, and the registry now maps \<open>L1\<close> to an empty function. And
  \<^verbatim>\<open>setLossFunc\<close> with that name does not leave the network as it was: the loss
  derivative of the network, \<open>L2\<close>'s before the call, is empty after it.
\<close>

theorem unknown_loss_counterexample:
  "vector_loss_func (snd (Network_single (dense_ops (1/10)) zeros1 registry0 (1, 1) 1 ''identity'' ''L1'')) = None
   \<and> VECTOR_LOSS (fst (Network_single (dense_ops (1/10)) zeros1 registry0 (1, 1) 1 ''identity'' ''L1'')) ''L1''
       = Some None
   \<and> vector_loss_derivative scenario_net = Some L2_loss_derivative
   \<and> vector_loss_derivative (snd (setLossFunc registry0 ''L1'' scenario_net)) = None"
  by (simp add: scenario_simps setLossFunc_def)

text \<open>
  C4, as the code has it. For a loss name that neither registry holds, the constructors
  and \<^verbatim>\<open>setLossFunc\<close> raise no error: each lookup inserts the name with an empty
  function, the constructors install the empty pair as the loss of the network, so that
  every later forward pass ends in an exception, and \<^verbatim>\<open>setLossFunc\<close> overwrites
  \<open>vector_loss\<close> and \<open>vector_loss_derivative\<close> of the network with empty functions.
\<close>

theorem unknown_loss_installs_empty:
  assumes "VECTOR_LOSS reg loss = None" and "VECTOR_LOSS_DERIVATIVE reg loss = None"
  shows "fst (Network_single ops u reg s k act loss) =
           reg\<lparr>VECTOR_LOSS := (VECTOR_LOSS reg)(loss \<mapsto> None),
               VECTOR_LOSS_DERIVATIVE := (VECTOR_LOSS_DERIVATIVE reg)(loss \<mapsto> None)\<rparr>
       \<and> vector_loss_func (snd (Network_single ops u reg s k act loss)) = None
       \<and> vector_loss_derivative (snd (Network_single ops u reg s k act loss)) = None
       \<and> isl (predict ops i t (snd (Network_single ops u reg s k act loss)))
       \<and> Network_loss_list u reg act loss ls =
           (reg\<lparr>VECTOR_LOSS := (VECTOR_LOSS reg)(loss \<mapsto> None),
                VECTOR_LOSS_DERIVATIVE := (VECTOR_LOSS_DERIVATIVE reg)(loss \<mapsto> None)\<rparr>,
            Network_list u ls)
       \<and> setLossFunc reg loss n =
           (reg\<lparr>VECTOR_LOSS := (VECTOR_LOSS reg)(loss \<mapsto> None),
                VECTOR_LOSS_DERIVATIVE := (VECTOR_LOSS_DERIVATIVE reg)(loss \<mapsto> None)\<rparr>,
            n\<lparr>vector_loss := None, vector_loss_derivative := None\<rparr>)"
proof -
  have f: "vector_loss_func (snd (Network_single ops u reg s k act loss)) = None"
    using assms
    by (simp add: Network_single_def index_VECTOR_LOSS_def index_VECTOR_LOSS_DERIVATIVE_def)
  show ?thesis
    using assms predict_empty_loss [OF f]
    by (simp add: Network_single_def Network_loss_list_def Network_list_def setLossFunc_def
          index_VECTOR_LOSS_def index_VECTOR_LOSS_DERIVATIVE_def Let_def)
qed

theorem unknown_loss_installs_empty_witness:
  "VECTOR_LOSS registry0 ''L1'' = None \<and> VECTOR_LOSS_DERIVATIVE registry0 ''L1'' = None
   \<and> vector_loss_func (snd (Network_single (dense_ops (1/10)) zeros1 registry0 (1, 1) 1 ''identity'' ''L1'')) = None
   \<and> isl (predict (dense_ops (1/10)) None None
            (snd (Network_single (dense_ops (1/10)) zeros1 registry0 (1, 1) 1 ''identity'' ''L1'')))
   \<and> vector_loss_derivative (snd (setLossFunc registry0 ''L1'' scenario_net)) = None"
proof -
  have a: "VECTOR_LOSS registry0 ''L1'' = None" by (simp add: registry0_def)
  have b: "VECTOR_LOSS_DERIVATIVE registry0 ''L1'' = None" by (simp add: registry0_def)
  from unknown_loss_installs_empty [OF a b, where ops = "dense_ops (1/10)" and u = zeros1
      and s = "(1, 1)" and k = 1 and act = "''identity''" and i = None and t = None
      and ls = "[]" and n = scenario_net] a b
  show ?thesis by simp
qed

subsection \<open>Overriding the target size\<close>

text \<open>
  With the override flag, the number of outputs is taken from the target the network
  holds before the call, whatever the length of the new one.
\<close>

lemma setTarget_override_num_outputs:
  "vsize t \<noteq> num_outputs n \<Longrightarrow> setTarget ops t True n = Inr n' \<Longrightarrow>
   num_outputs n' = vsize (target n) \<and> target n' = t"
  by (auto simp: setTarget_def Let_def split: if_splits)

text \<open>
  C6, the code at a failing input. The single-layer network has one output and a target
  of length 1. \<^verbatim>\<open>setTarget\<close> with a target of length 3 and the override flag stores the
  new target, and reads the number of outputs from the size of the old target
  (\<^verbatim>\<open>target.size()\<close>, not \<^verbatim>\<open>_target.size()\<close>): the number of outputs stays 1, as do the
  output width of the last layer and the recorded shape.
\<close>

theorem setTarget_override_keeps_num_outputs:
  "map_sum fst (\<lambda>n. (target n, num_outputs n, map getNumOutputs_l (layers n), layer_input_shapes n))
     (setTarget (dense_ops (1/10)) [1, 2, 3] True scenario_net)
   = Inr ([1, 2, 3], 1, [1], [(1, 1)])"
  by (simp add: scenario_simps setTarget_def vsize_def upd_back_def getNumOutputs_l_def Let_def)

subsection \<open>The training loop\<close>

text \<open>
  The loop as such: it returns at once when the counter is above the maximum or the loss
  is at or below the tolerance, and whenever it returns normally one of the two holds.
  Hence a warning is only ever printed with a loss at or below the tolerance.
\<close>

lemma train_loop_stops:
  "\<not> (num_iter \<le> maxIter \<and> scalar_loss n > stopTol) \<Longrightarrow>
   train_loop ops stopTol maxIter num_iter n = Some (Inr (num_iter, n))"
  by (subst train_loop.simps) auto

lemma train_loop_exit:
  assumes "train_loop ops stopTol maxIter num_iter n = Some r"
  shows "case r of Inl e \<Rightarrow> True
         | Inr (k, n') \<Rightarrow> \<not> (k \<le> maxIter \<and> scalar_loss n' > stopTol)"
proof (rule train_loop.raw_induct [where P = "\<lambda>ops stopTol maxIter num_iter n r.
     case r of Inl e \<Rightarrow> True
     | Inr (k, n') \<Rightarrow> \<not> (k \<le> maxIter \<and> scalar_loss n' > stopTol)", OF _ assms], goal_cases)
  case (1 loop ops stopTol maxIter num_iter n r)
  show ?case
  proof (cases "num_iter \<le> maxIter \<and> stopTol < scalar_loss n")
    case False
    with 1(2) show ?thesis by auto
  next
    case True
    with 1(2) show ?thesis
      by (auto simp: Let_def split: sum.splits dest: 1(1))
  qed
qed

lemma train_warning_only_within_tolerance:
  assumes "train ops stopTol maxIter inputData tgt noprint n = Some (Inr (n', Some x))"
  shows "scalar_loss n' \<le> stopTol \<and> x = scalar_loss n' \<and> \<not> noprint"
proof -
  from assms obtain n4 k where
    loop: "train_loop ops stopTol maxIter 1 n4 = Some (Inr (k, n'))"
    and w: "(if k = maxIter \<and> \<not> noprint then Some (scalar_loss n') else None) = Some x"
    by (auto simp: train_def Let_def split: sum.splits option.splits prod.splits)
  from train_loop_exit [OF loop] have "\<not> (k \<le> maxIter \<and> scalar_loss n' > stopTol)" by simp
  with w show ?thesis by (auto split: if_splits)
qed

lemmas train_simps = train_def predict_def setInputs_def setTarget_def
  rows_def cols_def vsize_def vsub_def vec_of_mat_def mat_mul_def mat_transpose_def mat_step_def
  L2_loss_def L2_loss_derivative_def getOutputs_l_def getErr_def getGradient_l_def
  backwardPass_def upd_back_def updateWeights_def backward_loop.simps Let_def

text \<open>
  C2, the code at the scenario of section 8 (input 3, target 6, weight 1, step 1/10)
  with tolerance 0 and a maximum of 1 iteration: after the first step the counter is 1,
  the loop condition \<^verbatim>\<open>num_iter <= maxIter\<close> holds and the loss 9/2 is above 0, so a
  second step runs. The loss history ends with two entries, not one.
\<close>

theorem train_max1_tol0_two_steps:
  "map_option (map_sum fst (\<lambda>(n, w). trainingLoss n))
     (train (dense_ops (1/10)) 0 1 (Some [[3]]) (Some [6]) False scenario_net)
   = Some (Inr [9/2, 9/200])"
  apply (simp add: scenario_simps train_simps)
  apply (subst train_loop.simps)
  apply (simp add: train_simps)
  apply (subst train_loop.simps)
  apply (simp add: train_simps word_le_nat_alt)
  done

text \<open>
  C7, the code at two inputs. With tolerance 0 and a maximum of 1 the loop ends because
  the counter passed the maximum, the loss 9/200 is above the tolerance, and no warning
  is printed although \<^verbatim>\<open>noprint\<close> is false: the counter is then 2, and the test is
  \<^verbatim>\<open>num_iter == maxIter\<close>. With tolerance 100 the first step already meets the tolerance,
  the loop body never runs, the counter is 1, and the warning is printed.
\<close>

theorem train_warning_misplaced:
  "map_option (map_sum fst (\<lambda>(n, w). (scalar_loss n, w)))
     (train (dense_ops (1/10)) 0 1 (Some [[3]]) (Some [6]) False scenario_net)
   = Some (Inr (9/200, None))
   \<and> map_option (map_sum fst (\<lambda>(n, w). (scalar_loss n, w)))
     (train (dense_ops (1/10)) 100 1 (Some [[3]]) (Some [6]) False scenario_net)
   = Some (Inr (9/2, Some (9/2)))"
  apply (rule conjI)
   apply (simp add: scenario_simps train_simps)
   apply (subst train_loop.simps)
   apply (simp add: train_simps)
   apply (subst train_loop.simps)
   apply (simp add: train_simps word_le_nat_alt)
  apply (simp add: scenario_simps train_simps)
  apply (subst train_loop.simps)
  apply (simp add: train_simps)
  done

subsection \<open>Shapes after construction and after structural edits\<close>

text \<open>
  What the code keeps of the shape bookkeeping. The list constructor and \<^verbatim>\<open>setLayers\<close>
  record the declared input shape of every layer, in order, and take the first of them
  as the input shape of the network; \<^verbatim>\<open>insertLayer\<close> before an existing layer does the
  same; \<^verbatim>\<open>appendLayers\<close> extends a record that was in step with the layers and leaves
  the input shape alone. Without the override flag \<^verbatim>\<open>setInputs\<close> and \<^verbatim>\<open>setTarget\<close>
  assign the one member and nothing else.
\<close>

lemma Network_list_shapes:
  "ls \<noteq> [] \<Longrightarrow>
   \<exists>n'. Network_list u ls = Inr n' \<and> layers n' = ls
        \<and> layer_input_shapes n' = map getInputShape ls
        \<and> input_shape n' = getInputShape (ls ! 0)"
  by (simp add: Network_list_def Let_def)

lemma setLayers_shapes:
  "ls \<noteq> [] \<Longrightarrow>
   \<exists>n'. setLayers ls n = Inr n' \<and> layers n' = ls
        \<and> layer_input_shapes n' = map getInputShape ls
        \<and> input_shape n' = getInputShape (ls ! 0)"
  by (simp add: setLayers_def Let_def)

lemma insertLayer_shapes:
  "i < length (layers n) \<Longrightarrow>
   \<exists>n'. insertLayer i l n = Inr n'
        \<and> layers n' = take i (layers n) @ l # drop i (layers n)
        \<and> layer_input_shapes n' = map getInputShape (layers n')
        \<and> input_shape n' = getInputShape (layers n' ! 0)"
  by (simp add: insertLayer_def Let_def del: map_append)

lemma appendLayers_shapes:
  "layers n \<noteq> [] \<Longrightarrow> layer_input_shapes n = map getInputShape (layers n) \<Longrightarrow>
   \<exists>n'. appendLayers new n = Inr n' \<and> layers n' = layers n @ new
        \<and> layer_input_shapes n' = map getInputShape (layers n')
        \<and> input_shape n' = input_shape n"
  by (simp add: appendLayers_def Let_def)

lemma setInputs_plain:
  "setInputs ops m False n = Inr n' \<Longrightarrow> n' = n\<lparr>inputs := m\<rparr>"
  by (auto simp: setInputs_def split: if_splits)

lemma setTarget_plain:
  "setTarget ops t False n = Inr n' \<Longrightarrow> n' = n\<lparr>target := t\<rparr>"
  by (auto simp: setTarget_def split: if_splits)

text \<open>
  The number of outputs is where the paths part. The single-layer constructor hands its
  argument to the layer as the output width; the list constructor, \<^verbatim>\<open>setLayers\<close>,
  \<^verbatim>\<open>appendLayers\<close> and \<^verbatim>\<open>insertLayer\<close> read \<^verbatim>\<open>layer_input_shapes.back().second\<close>, the
  number of columns of the last layer's input, whatever the output width of that layer.
\<close>

lemma Network_single_num_outputs:
  "layers (snd (Network_single ops u reg s k act loss)) = [Layer_new ops s k act]
   \<and> layer_input_shapes (snd (Network_single ops u reg s k act loss)) = [s]
   \<and> input_shape (snd (Network_single ops u reg s k act loss)) = s
   \<and> num_outputs (snd (Network_single ops u reg s k act loss)) = k"
  by (simp add: Network_single_def Let_def split: prod.splits)

lemma Network_list_num_outputs:
  "Network_list u ls = Inr n' \<Longrightarrow> num_outputs n' = snd (getInputShape (last ls))"
  by (auto simp: Network_list_def Let_def last_map split: if_splits)

lemma setLayers_num_outputs:
  "setLayers ls n = Inr n' \<Longrightarrow> num_outputs n' = snd (getInputShape (last ls))"
  by (auto simp: setLayers_def Let_def last_map split: if_splits)

lemma appendLayers_num_outputs:
  "appendLayers new n = Inr n' \<Longrightarrow>
   num_outputs n' = snd (last (layer_input_shapes n @ map getInputShape new))"
  by (auto simp: appendLayers_def Let_def split: if_splits)

lemma insertLayer_num_outputs:
  "i < length (layers n) \<Longrightarrow> insertLayer i l n = Inr n' \<Longrightarrow>
   num_outputs n' = snd (getInputShape (last (layers n')))"
  by (auto simp: insertLayer_def Let_def last_map simp del: map_append)

text \<open>
  C9, the code at two failing inputs. Built by the list constructor from one layer of
  input shape 2 by 3 and output width 5, the network has 3 as its number of outputs
  while the output width of its last layer is 5. Built by the single-layer constructor
  with input shape 2 by 1 and 3 outputs, the network has the output width of its layer,
  3, as its number of outputs; \<^verbatim>\<open>appendLayers\<close> with an empty list, which changes no
  layer, then sets the number of outputs to 1, the columns of the input, and the output
  width of the last layer is still 3.
\<close>

theorem list_paths_num_outputs_not_output_width:
  "map_sum id (\<lambda>n. (getNumOutputs_l (last (layers n)), num_outputs n, layer_input_shapes n))
     (Network_list zeros1 [Layer_new (dense_ops (1/10)) (2, 3) 5 ''identity''])
   = Inr (5, 3, [(2, 3)])
   \<and> (\<lambda>n. (getNumOutputs_l (last (layers n)), num_outputs n, length (layers n)))
       (snd (Network_single (dense_ops (1/10)) zeros1 registry0 (2, 1) 3 ''identity'' ''L2''))
     = (3, 3, 1)
   \<and> map_sum fst (\<lambda>n. (getNumOutputs_l (last (layers n)), num_outputs n, length (layers n)))
       (appendLayers []
         (snd (Network_single (dense_ops (1/10)) zeros1 registry0 (2, 1) 3 ''identity'' ''L2'')))
     = Inr (3, 1, 1)"
  by (simp add: Network_list_def Network_single_def appendLayers_def dense_ops_def registry0_def
        index_VECTOR_LOSS_def index_VECTOR_LOSS_DERIVATIVE_def getInputShape_def
        getNumOutputs_l_def Let_def)

end
